theory Spec2Isabelle
  imports Main "HOL-Library.Word"
begin

section \<open>The oc wrapper script \<open>scripts/oc_example.py\<close>\<close>

text \<open>
  The script shells out to the \<open>oc\<close> binary through \<open>subprocess.run\<close>, decodes the
  output of two list queries with \<open>json.loads\<close> and reports through a logger.
  Everything the script does to the outside is written into a trace of events: each
  call of \<open>subprocess.run\<close>, each emitted log record and the printing of the usage help.
  The Python runtime the script stands on (what \<open>subprocess.run\<close> answers, what
  \<open>json.loads\<close> decodes, what \<open>str()\<close> prints for a decoded value that is not a string)
  is a parameter of every function: a record of type \<open>runtime\<close>.

  A Python \<open>str\<close> is modelled as a \<open>string\<close>, one \<open>char\<close> per code point below 256.
\<close>

subsection \<open>Strings\<close>

text \<open>\<open>sep.join(parts)\<close>.\<close>

fun join :: "string \<Rightarrow> string list \<Rightarrow> string" where
  "join sep [] = []"
| "join sep [x] = x"
| "join sep (x # y # ys) = x @ sep @ join sep (y # ys)"

text \<open>
  \<open>str.isspace\<close> on one code point below 256: tab, line feed, vertical tab, form feed,
  carriage return, the four separators 28 to 31, space, next line (133) and the
  no-break space (160).
\<close>

definition isspace :: "char \<Rightarrow> bool" where
  "isspace c = ((of_char c :: nat) \<in> {9, 10, 11, 12, 13, 28, 29, 30, 31, 32, 133, 160})"

text \<open>\<open>str.strip()\<close>: whitespace removed at both ends.\<close>

definition strip :: "string \<Rightarrow> string" where
  "strip s = rev (dropWhile isspace (rev (dropWhile isspace s)))"

text \<open>\<open>str(n)\<close> for a length \<open>n\<close>, in decimal.\<close>

definition digit_char :: "nat \<Rightarrow> char" where
  "digit_char d = char_of (48 + d)"

fun str_nat :: "nat \<Rightarrow> string" where
  "str_nat n = (if n < 10 then [digit_char n] else str_nat (n div 10) @ [digit_char (n mod 10)])"

subsection \<open>Events, logging and the runtime\<close>

datatype level = DEBUG | INFO | WARNING | ERROR

text \<open>The numeric levels of the \<open>logging\<close> module.\<close>

fun levelno :: "level \<Rightarrow> nat" where
  "levelno DEBUG = 10"
| "levelno INFO = 20"
| "levelno WARNING = 30"
| "levelno ERROR = 40"

text \<open>
  An event is a call of \<open>subprocess.run\<close> with its full argument vector, an emitted log
  record, or \<open>parser.print_help()\<close>.
\<close>

datatype event = Run "string list" | Log level string | PrintHelp

type_synonym trace = "event list"

text \<open>The argument vectors of the external calls made so far, in order.\<close>

fun runs_of :: "trace \<Rightarrow> string list list" where
  "runs_of [] = []"
| "runs_of (Run c # t) = c # runs_of t"
| "runs_of (Log l m # t) = runs_of t"
| "runs_of (PrintHelp # t) = runs_of t"

text \<open>
  \<open>logging.basicConfig(level=logging.INFO)\<close>: a record below \<open>INFO\<close> is dropped,
  every other one is emitted.
\<close>

definition log :: "level \<Rightarrow> string \<Rightarrow> trace \<Rightarrow> trace" where
  "log lvl msg t = (if levelno INFO \<le> levelno lvl then t @ [Log lvl msg] else t)"

text \<open>
  What \<open>subprocess.run(full_command, capture_output=True, text=True, check=True)\<close> can
  do. \<open>Completed\<close>: the process ran to the end and its captured output was decoded as
  text, with its return code, standard output and standard error (\<open>check=True\<close> turns
  a non-zero return code into \<open>CalledProcessError\<close>). \<open>Undecodable\<close>: the process ran
  to the end, with its return code, but its captured output is not text in the
  expected encoding, so that \<open>subprocess.run\<close> raises \<open>UnicodeDecodeError\<close>.
  \<open>Raised\<close>: no process ran to the end, the call raised another exception (binary
  missing, not executable, ...). Of an exception only \<open>str(e)\<close> is used.
\<close>

datatype run_result =
    Completed int string string
  | Undecodable int string
  | Raised string

text \<open>
  A value decoded by \<open>json.loads\<close>: \<open>None\<close>, a bool, an int, a float (its 64 bits), a
  str, a list, or a dict. A dict is an association list read with \<open>map_of\<close>: the first
  binding of a key is the dict's entry for it.
\<close>

datatype json =
    JNull
  | JBool bool
  | JInt int
  | JFloat "64 word"
  | JStr string
  | JList "json list"
  | JDict "(string \<times> json) list"

text \<open>
  The exceptions that the script never catches: those it raises itself on a decoded
  value (\<open>AttributeError\<close>, \<open>TypeError\<close>) and those \<open>json.loads\<close> can raise besides
  \<open>JSONDecodeError\<close> (\<open>RecursionError\<close> on deeply nested text, \<open>ValueError\<close> on an
  integer literal beyond the digit limit).
\<close>

datatype exn = AttributeError | TypeError | RecursionError | ValueError

text \<open>
  What \<open>json.loads(output)\<close> can do: return the decoded value, raise
  \<open>JSONDecodeError\<close>, or raise another exception.
\<close>

datatype loads_result = Decoded json | JSONDecodeError | Raises exn

text \<open>
  The runtime: \<open>subprocess_run\<close> answers a call from the argument vectors of the calls
  made before it and its own argument vector (the external binary may keep state
  between calls); \<open>json_loads\<close> is \<open>json.loads\<close>; \<open>py_str\<close> is \<open>str()\<close> on a decoded
  value.
\<close>

record runtime =
  subprocess_run :: "string list list \<Rightarrow> string list \<Rightarrow> run_result"
  json_loads :: "string \<Rightarrow> loads_result"
  py_str :: "json \<Rightarrow> string"

subsection \<open>The command runner\<close>

definition run_oc_command :: "runtime \<Rightarrow> string list \<Rightarrow> trace \<Rightarrow> (bool \<times> string) \<times> trace" where
  "run_oc_command rt command t =
     (let full_command = ''oc'' # command;
          t1 = log DEBUG (''Executing: '' @ join '' '' full_command) t
      in case subprocess_run rt (runs_of t1) full_command of
           Completed returncode out err \<Rightarrow>
             if returncode = 0 then ((True, out), t1 @ [Run full_command])
             else
               let t2 = log ERROR (''Command failed: '' @ join '' '' full_command)
                          (t1 @ [Run full_command]);
                   t3 = log ERROR (''Error: '' @ strip err) t2
               in ((False, err), t3)
         | Undecodable returncode msg \<Rightarrow>
             ((False, msg),
              log ERROR (''Exception while running command: '' @ msg)
                (t1 @ [Run full_command]))
         | Raised msg \<Rightarrow>
             ((False, msg),
              log ERROR (''Exception while running command: '' @ msg)
                (t1 @ [Run full_command])))"

definition is_logged_in :: "runtime \<Rightarrow> trace \<Rightarrow> bool \<times> trace" where
  "is_logged_in rt t =
     (let ((success, _), t1) = run_oc_command rt [''whoami''] t in (success, t1))"

subsection \<open>Decoded values as Python sees them\<close>

text \<open>\<open>obj.get(key, default)\<close>: only a dict has the method.\<close>

definition dict_get :: "json \<Rightarrow> string \<Rightarrow> json \<Rightarrow> exn + json" where
  "dict_get obj key dflt =
     (case obj of
        JDict kvs \<Rightarrow> Inr (case map_of kvs key of Some v \<Rightarrow> v | None \<Rightarrow> dflt)
      | _ \<Rightarrow> Inl AttributeError)"

text \<open>\<open>len(obj)\<close>: defined on a list, a str and a dict (its number of keys).\<close>

definition py_len :: "json \<Rightarrow> exn + nat" where
  "py_len obj =
     (case obj of
        JList xs \<Rightarrow> Inr (length xs)
      | JStr s \<Rightarrow> Inr (length s)
      | JDict kvs \<Rightarrow> Inr (length (remdups (map fst kvs)))
      | _ \<Rightarrow> Inl TypeError)"

text \<open>The truth value of \<open>obj\<close> in \<open>if obj:\<close>; a float is false when it is 0.0 or -0.0.\<close>

definition truthy :: "json \<Rightarrow> bool" where
  "truthy obj =
     (case obj of
        JNull \<Rightarrow> False
      | JBool b \<Rightarrow> b
      | JInt i \<Rightarrow> i \<noteq> 0
      | JFloat w \<Rightarrow> w \<noteq> 0 \<and> w \<noteq> 0x8000000000000000
      | JStr s \<Rightarrow> s \<noteq> []
      | JList xs \<Rightarrow> xs \<noteq> []
      | JDict kvs \<Rightarrow> kvs \<noteq> [])"

text \<open>
  The elements \<open>for x in obj\<close> visits: those of a list, the one-character strings of
  a str, the keys of a dict.
\<close>

definition py_iter :: "json \<Rightarrow> exn + json list" where
  "py_iter obj =
     (case obj of
        JList xs \<Rightarrow> Inr xs
      | JStr s \<Rightarrow> Inr (map (\<lambda>c. JStr [c]) s)
      | JDict kvs \<Rightarrow> Inr (map JStr (remdups (map fst kvs)))
      | _ \<Rightarrow> Inl TypeError)"

text \<open>A decoded value inside an f-string: a str as it is, anything else through \<open>str()\<close>.\<close>

definition format_value :: "runtime \<Rightarrow> json \<Rightarrow> string" where
  "format_value rt v = (case v of JStr s \<Rightarrow> s | _ \<Rightarrow> py_str rt v)"

text \<open>A name between single quotes, as the f-strings of the script write it.\<close>

definition quoted :: "string \<Rightarrow> string" where
  "quoted s = [CHR 0x27] @ s @ [CHR 0x27]"

text \<open>\<open>obj.get('metadata', {}).get('name', default)\<close>.\<close>

definition metadata_name :: "json \<Rightarrow> json \<Rightarrow> exn + json" where
  "metadata_name obj dflt =
     (case dict_get obj ''metadata'' (JDict []) of
        Inl e \<Rightarrow> Inl e
      | Inr metadata \<Rightarrow> dict_get metadata ''name'' dflt)"

subsection \<open>Domain operations\<close>

definition get_users :: "runtime \<Rightarrow> trace \<Rightarrow> (exn + json) \<times> trace" where
  "get_users rt t =
     (let ((success, output), t1) = run_oc_command rt [''get'', ''users'', ''-o'', ''json''] t
      in if \<not> success then (Inr (JList []), log ERROR ''Failed to get users'' t1)
         else case json_loads rt output of
                Decoded data \<Rightarrow> (dict_get data ''items'' (JList []), t1)
              | JSONDecodeError \<Rightarrow>
                  (Inr (JList []), log ERROR ''Failed to parse user data as JSON'' t1)
              | Raises e \<Rightarrow> (Inl e, t1))"

text \<open>The membership call that ends the body of the loop over the groups.\<close>

definition create_user_add :: "runtime \<Rightarrow> string \<Rightarrow> string \<Rightarrow> trace \<Rightarrow> trace" where
  "create_user_add rt username grp t =
     (let ((add_success, _), t1) =
            run_oc_command rt [''adm'', ''groups'', ''add-users'', grp, username] t
      in if add_success
         then log INFO (''Added user '' @ quoted username @ '' to group '' @ quoted grp) t1
         else log WARNING
                (''Failed to add user '' @ quoted username @ '' to group '' @ quoted grp) t1)"

text \<open>The body of the loop over the groups in \<open>create_user\<close>; \<open>continue\<close> ends it early.\<close>

definition create_user_group :: "runtime \<Rightarrow> string \<Rightarrow> string \<Rightarrow> trace \<Rightarrow> trace" where
  "create_user_group rt username grp t =
     (let ((group_success, _), t1) = run_oc_command rt [''get'', ''group'', grp] t
      in if \<not> group_success then
           let t2 = log INFO (''Group '' @ quoted grp @ '' doesn't exist, creating it'') t1;
               ((create_group_success, _), t3) =
                  run_oc_command rt [''adm'', ''groups'', ''new'', grp] t2
           in if \<not> create_group_success
              then log WARNING (''Failed to create group '' @ quoted grp) t3
              else create_user_add rt username grp t3
         else create_user_add rt username grp t1)"

primrec create_user_loop :: "runtime \<Rightarrow> string \<Rightarrow> string list \<Rightarrow> trace \<Rightarrow> trace" where
  "create_user_loop rt username [] t = t"
| "create_user_loop rt username (grp # rest) t =
     create_user_loop rt username rest (create_user_group rt username grp t)"

text \<open>\<open>if groups:\<close> holds for a list that is neither \<open>None\<close> nor empty.\<close>

definition create_user :: "runtime \<Rightarrow> string \<Rightarrow> string list option \<Rightarrow> trace \<Rightarrow> bool \<times> trace" where
  "create_user rt username groups t =
     (let ((success, output), t1) = run_oc_command rt [''create'', ''user'', username] t
      in if \<not> success
         then (False, log ERROR (''Failed to create user '' @ quoted username @ '': '' @ output) t1)
         else
           let t2 = log INFO (''User '' @ quoted username @ '' created successfully'') t1
           in case groups of
                None \<Rightarrow> (True, t2)
              | Some gs \<Rightarrow>
                  if gs \<noteq> [] then (True, create_user_loop rt username gs t2) else (True, t2))"

definition delete_user :: "runtime \<Rightarrow> string \<Rightarrow> trace \<Rightarrow> bool \<times> trace" where
  "delete_user rt username t =
     (let ((success, output), t1) = run_oc_command rt [''delete'', ''user'', username] t
      in if \<not> success
         then (False, log ERROR (''Failed to delete user '' @ quoted username @ '': '' @ output) t1)
         else (True, log INFO (''User '' @ quoted username @ '' deleted successfully'') t1))"

definition get_groups :: "runtime \<Rightarrow> trace \<Rightarrow> (exn + json) \<times> trace" where
  "get_groups rt t =
     (let ((success, output), t1) = run_oc_command rt [''get'', ''groups'', ''-o'', ''json''] t
      in if \<not> success then (Inr (JList []), log ERROR ''Failed to get groups'' t1)
         else case json_loads rt output of
                Decoded data \<Rightarrow> (dict_get data ''items'' (JList []), t1)
              | JSONDecodeError \<Rightarrow>
                  (Inr (JList []), log ERROR ''Failed to parse group data as JSON'' t1)
              | Raises e \<Rightarrow> (Inl e, t1))"

definition add_user_to_group :: "runtime \<Rightarrow> string \<Rightarrow> string \<Rightarrow> trace \<Rightarrow> bool \<times> trace" where
  "add_user_to_group rt username grp t =
     (let add_user = (\<lambda>t.
            let ((add_success, output), t4) =
                  run_oc_command rt [''adm'', ''groups'', ''add-users'', grp, username] t
            in if \<not> add_success
               then (False,
                     log ERROR (''Failed to add user '' @ quoted username @ '' to group ''
                                @ quoted grp @ '': '' @ output) t4)
               else (True,
                     log INFO (''Added user '' @ quoted username @ '' to group '' @ quoted grp) t4));
          ((group_success, _), t1) = run_oc_command rt [''get'', ''group'', grp] t
      in if \<not> group_success then
           let t2 = log INFO (''Group '' @ quoted grp @ '' doesn't exist, creating it'') t1;
               ((create_group_success, _), t3) =
                  run_oc_command rt [''adm'', ''groups'', ''new'', grp] t2
           in if \<not> create_group_success
              then (False, log ERROR (''Failed to create group '' @ quoted grp) t3)
              else add_user t3
         else add_user t1)"

subsection \<open>The connection check\<close>

definition check_connection :: "runtime \<Rightarrow> trace \<Rightarrow> bool \<times> trace" where
  "check_connection rt t =
     (let (logged_in, t1) = is_logged_in rt t
      in if \<not> logged_in
         then (False, log ERROR ''Not logged in to OpenShift cluster. Run 'oc login' first.'' t1)
         else
           let ((success, output), t2) = run_oc_command rt [''project''] t1
           in if \<not> success then (False, log ERROR ''Failed to get current project'' t2)
              else (True,
                    log INFO (''Connected to OpenShift. Current project: '' @ strip output) t2))"

subsection \<open>The dispatcher\<close>

text \<open>
  The \<open>Namespace\<close> that \<open>parser.parse_args()\<close> returns: \<open>args.command\<close> is \<open>None\<close> when
  no subcommand was given; \<open>args.username\<close>, \<open>args.group\<close> and \<open>args.groups\<close> are read
  only in the branches of the subcommands that define them. \<open>args.groups\<close> is \<open>None\<close>
  without \<open>--groups\<close> and the list of the names after it otherwise (\<open>nargs='*'\<close>).
  Parsing itself is argparse's work and happens before anything modelled here.
\<close>

record namespace =
  arg_command :: "string option"
  arg_username :: string
  arg_group :: string
  arg_groups :: "string list option"

text \<open>
  How \<open>main\<close> ends: it returns, it calls \<open>sys.exit\<close>, or an exception leaves it
  uncaught. The interpreter's exit status is 0 after a return, the argument of
  \<open>sys.exit\<close>, and 1 after an uncaught exception.
\<close>

datatype outcome = Returned | SysExit int | Uncaught exn

fun exit_status :: "outcome \<Rightarrow> int" where
  "exit_status Returned = 0"
| "exit_status (SysExit n) = n"
| "exit_status (Uncaught e) = 1"

text \<open>The loop of \<open>list-users\<close> over the users.\<close>

primrec list_users_loop :: "runtime \<Rightarrow> json list \<Rightarrow> trace \<Rightarrow> outcome \<times> trace" where
  "list_users_loop rt [] t = (Returned, t)"
| "list_users_loop rt (user # rest) t =
     (case metadata_name user (JStr ''Unknown'') of
        Inl e \<Rightarrow> (Uncaught e, t)
      | Inr user_name \<Rightarrow>
          list_users_loop rt rest (log INFO (''- '' @ format_value rt user_name) t))"

definition main_list_users :: "runtime \<Rightarrow> trace \<Rightarrow> outcome \<times> trace" where
  "main_list_users rt t =
     (let t1 = log INFO ''Getting list of users...'' t;
          (r, t2) = get_users rt t1
      in case r of
           Inl e \<Rightarrow> (Uncaught e, t2)
         | Inr users \<Rightarrow>
             (case py_len users of
                Inl e \<Rightarrow> (Uncaught e, t2)
              | Inr n \<Rightarrow>
                  let t3 = log INFO (''Found '' @ str_nat n @ '' users'') t2
                  in if truthy users then
                       (case py_iter users of
                          Inl e \<Rightarrow> (Uncaught e, log INFO ''User list:'' t3)
                        | Inr us \<Rightarrow> list_users_loop rt us (log INFO ''User list:'' t3))
                     else (Returned, t3)))"

text \<open>
  \<open>any(user.get('metadata', {}).get('name') == username for user in users_after)\<close>:
  the users are visited in order, and the first one that matches ends the visit.
\<close>

primrec any_named :: "string \<Rightarrow> json list \<Rightarrow> exn + bool" where
  "any_named username [] = Inr False"
| "any_named username (user # rest) =
     (case metadata_name user JNull of
        Inl e \<Rightarrow> Inl e
      | Inr name \<Rightarrow> if name = JStr username then Inr True else any_named username rest)"

text \<open>\<open>groups = args.groups if args.groups else None\<close>.\<close>

definition main_groups :: "namespace \<Rightarrow> string list option" where
  "main_groups args =
     (case arg_groups args of
        None \<Rightarrow> None
      | Some gs \<Rightarrow> if gs \<noteq> [] then Some gs else None)"

definition main_create_user :: "runtime \<Rightarrow> namespace \<Rightarrow> trace \<Rightarrow> outcome \<times> trace" where
  "main_create_user rt args t =
     (let username = arg_username args;
          groups = main_groups args;
          t1 = log INFO (''Creating user '' @ quoted username @ ''...'') t;
          (created, t2) = create_user rt username groups t1
      in if created then
           let t3 = log INFO (''Successfully created user '' @ quoted username) t2;
               (r, t4) = get_users rt t3
           in case r of
                Inl e \<Rightarrow> (Uncaught e, t4)
              | Inr users_after \<Rightarrow>
                  (case py_iter users_after of
                     Inl e \<Rightarrow> (Uncaught e, t4)
                   | Inr us \<Rightarrow>
                       (case any_named username us of
                          Inl e \<Rightarrow> (Uncaught e, t4)
                        | Inr user_created \<Rightarrow>
                            if user_created
                            then (Returned,
                                  log INFO (''Verified user '' @ quoted username
                                            @ '' exists in the system'') t4)
                            else (Returned,
                                  log WARNING (''User '' @ quoted username
                                               @ '' was not found after creation'') t4)))
         else (Returned, log ERROR (''Failed to create user '' @ quoted username) t2))"

definition main_delete_user :: "runtime \<Rightarrow> namespace \<Rightarrow> trace \<Rightarrow> outcome \<times> trace" where
  "main_delete_user rt args t =
     (let username = arg_username args;
          t1 = log INFO (''Deleting user '' @ quoted username @ ''...'') t;
          (deleted, t2) = delete_user rt username t1
      in if deleted
         then (Returned, log INFO (''Successfully deleted user '' @ quoted username) t2)
         else (Returned, log ERROR (''Failed to delete user '' @ quoted username) t2))"

definition main_add_to_group :: "runtime \<Rightarrow> namespace \<Rightarrow> trace \<Rightarrow> outcome \<times> trace" where
  "main_add_to_group rt args t =
     (let username = arg_username args;
          grp = arg_group args;
          t1 = log INFO (''Adding user '' @ quoted username @ '' to group '' @ quoted grp
                         @ ''...'') t;
          (added, t2) = add_user_to_group rt username grp t1
      in if added
         then (Returned,
               log INFO (''Successfully added user '' @ quoted username @ '' to group ''
                         @ quoted grp) t2)
         else (Returned,
               log ERROR (''Failed to add user '' @ quoted username @ '' to group ''
                          @ quoted grp) t2))"

text \<open>The loop of \<open>list-groups\<close> over the groups.\<close>

primrec list_groups_loop :: "runtime \<Rightarrow> json list \<Rightarrow> trace \<Rightarrow> outcome \<times> trace" where
  "list_groups_loop rt [] t = (Returned, t)"
| "list_groups_loop rt (grp # rest) t =
     (case metadata_name grp (JStr ''Unknown'') of
        Inl e \<Rightarrow> (Uncaught e, t)
      | Inr group_name \<Rightarrow>
          (case dict_get grp ''users'' (JList []) of
             Inl e \<Rightarrow> (Uncaught e, t)
           | Inr users \<Rightarrow>
               (case py_len users of
                  Inl e \<Rightarrow> (Uncaught e, t)
                | Inr n \<Rightarrow>
                    list_groups_loop rt rest
                      (log INFO (''- '' @ format_value rt group_name @ '' (Users: ''
                                 @ str_nat n @ '')'') t))))"

definition main_list_groups :: "runtime \<Rightarrow> trace \<Rightarrow> outcome \<times> trace" where
  "main_list_groups rt t =
     (let t1 = log INFO ''Getting list of groups...'' t;
          (r, t2) = get_groups rt t1
      in case r of
           Inl e \<Rightarrow> (Uncaught e, t2)
         | Inr groups \<Rightarrow>
             (case py_len groups of
                Inl e \<Rightarrow> (Uncaught e, t2)
              | Inr n \<Rightarrow>
                  let t3 = log INFO (''Found '' @ str_nat n @ '' groups'') t2
                  in if truthy groups then
                       (case py_iter groups of
                          Inl e \<Rightarrow> (Uncaught e, log INFO ''Group list:'' t3)
                        | Inr gs \<Rightarrow> list_groups_loop rt gs (log INFO ''Group list:'' t3))
                     else (Returned, t3)))"

text \<open>
  \<open>main\<close>, from the connection check on: the check comes before the subcommand is
  looked at, and the last branch takes every value of \<open>args.command\<close> that is none of
  the five names.
\<close>

definition main :: "runtime \<Rightarrow> namespace \<Rightarrow> trace \<Rightarrow> outcome \<times> trace" where
  "main rt args t =
     (let (connected, t1) = check_connection rt t
      in if \<not> connected then (SysExit 1, t1)
         else if arg_command args = Some ''list-users'' then main_list_users rt t1
         else if arg_command args = Some ''create-user'' then main_create_user rt args t1
         else if arg_command args = Some ''delete-user'' then main_delete_user rt args t1
         else if arg_command args = Some ''add-to-group'' then main_add_to_group rt args t1
         else if arg_command args = Some ''list-groups'' then main_list_groups rt t1
         else (Returned, log ERROR ''No command specified'' t1 @ [PrintHelp]))"

text \<open>The names of the five subcommands.\<close>

definition recognized :: "string list" where
  "recognized = [''list-users'', ''create-user'', ''delete-user'', ''add-to-group'', ''list-groups'']"

text \<open>
  The namespace of an invocation without arguments: \<open>command\<close> is \<open>None\<close> and the
  other attributes do not exist (they are never read).
\<close>

definition no_args :: namespace where
  "no_args = \<lparr>arg_command = None, arg_username = [], arg_group = [], arg_groups = None\<rparr>"

text \<open>
  \<open>parser.parse_args()\<close> on the command line \<open>argv\<close> (\<open>sys.argv[1:]\<close>), for the parser
  that \<open>setup_argparse\<close> builds; \<open>Inl status\<close> when argparse exits with that status
  instead of returning. Two cases are written out. Without arguments, the subcommand
  is optional and the namespace has \<open>command = None\<close>. When the first argument does
  not start with \<open>-\<close> it is the subcommand, and argparse rejects a name that is none of
  the five choices with a usage error, which exits with status 2. What argparse does on
  every other command line (a recognized subcommand and its arguments, a leading
  option) is the parameter \<open>others\<close>.
\<close>

definition parse_args :: "(string list \<Rightarrow> int + namespace) \<Rightarrow> string list \<Rightarrow> int + namespace" where
  "parse_args others argv =
     (case argv of
        [] \<Rightarrow> Inr no_args
      | name # rest \<Rightarrow>
          if name \<notin> set recognized \<and> (name = [] \<or> hd name \<noteq> CHR ''-'') then Inl 2
          else others argv)"

text \<open>
  \<open>main\<close> from its first line: the command line is parsed before the connection check,
  and an exit of argparse ends the process there.
\<close>

definition main_argv ::
  "runtime \<Rightarrow> (string list \<Rightarrow> int + namespace) \<Rightarrow> string list \<Rightarrow> trace \<Rightarrow> outcome \<times> trace" where
  "main_argv rt others argv t =
     (case parse_args others argv of
        Inl status \<Rightarrow> (SysExit status, t)
      | Inr args \<Rightarrow> main rt args t)"

subsection \<open>Vocabulary of the properties\<close>

text \<open>Whether a call of the command runner made after \<open>t\<close> succeeds, and the trace after it.\<close>

abbreviation ok :: "runtime \<Rightarrow> string list \<Rightarrow> trace \<Rightarrow> bool" where
  "ok rt command t \<equiv> fst (fst (run_oc_command rt command t))"

abbreviation after :: "runtime \<Rightarrow> string list \<Rightarrow> trace \<Rightarrow> trace" where
  "after rt command t \<equiv> snd (run_oc_command rt command t)"

text \<open>
  A runtime given by two tables: the answer of the binary to each argument vector
  (exit code 0 and no output for a vector that is not listed) and the decoded value of
  each output text (a decoding error for a text that is not listed).
\<close>

definition table_runtime :: "(string list \<times> run_result) list \<Rightarrow> (string \<times> json) list \<Rightarrow> runtime" where
  "table_runtime answers decoded =
     \<lparr>subprocess_run =
        (\<lambda>history argv. case map_of answers argv of Some r \<Rightarrow> r | None \<Rightarrow> Completed 0 [] []),
      json_loads =
        (\<lambda>s. case map_of decoded s of Some v \<Rightarrow> Decoded v | None \<Rightarrow> JSONDecodeError),
      py_str = (\<lambda>v. [])\<rparr>"

text \<open>
  Sample runtimes: one whose identity query prints a name, whose context query exits
  with code 1 and whose user query cannot be launched; one whose group query and
  group creation fail for the group \<open>ops\<close>.
\<close>

definition no_project :: runtime where
  "no_project = table_runtime
     [([''oc'', ''whoami''], Completed 0 ''alice'' []),
      ([''oc'', ''project''], Completed 1 [] ''no project''),
      ([''oc'', ''get'', ''users'', ''-o'', ''json''], Raised ''No such file'')] []"

definition no_ops_group :: runtime where
  "no_ops_group = table_runtime
     [([''oc'', ''get'', ''group'', ''ops''], Completed 1 [] ''not found''),
      ([''oc'', ''adm'', ''groups'', ''new'', ''ops''], Completed 1 [] ''forbidden'')] []"

text \<open>
  A runtime whose binary exits with code 0 on every call after printing bytes that are
  not UTF-8 text; the message is that of the \<open>UnicodeDecodeError\<close>.
\<close>

definition garbled :: runtime where
  "garbled =
     \<lparr>subprocess_run =
        (\<lambda>history argv.
           Undecodable 0 (quoted ''utf-8''
             @ '' codec can't decode byte 0xff in position 0: invalid start byte'')),
      json_loads = (\<lambda>s. JSONDecodeError),
      py_str = (\<lambda>v. [])\<rparr>"

text \<open>
  A text of 2000 opening brackets, which is not well-formed JSON, and a runtime whose
  list queries print it: \<open>json.loads\<close> exceeds the recursion limit on it and raises
  \<open>RecursionError\<close> before it reaches the end of the text.
\<close>

definition brackets :: string where
  "brackets = replicate 2000 (CHR ''['')"

definition deep_output :: runtime where
  "deep_output =
     \<lparr>subprocess_run = (\<lambda>history argv. Completed 0 brackets []),
      json_loads = (\<lambda>s. if s = brackets then Raises RecursionError else JSONDecodeError),
      py_str = (\<lambda>v. [])\<rparr>"

text \<open>
  A runtime with a working login whose two list queries print \<open>out\<close>, whose deletion
  of the user \<open>carol\<close> fails, and which decodes texts by the table \<open>decoded\<close>.
\<close>

definition listing :: "string \<Rightarrow> (string \<times> json) list \<Rightarrow> runtime" where
  "listing out decoded = table_runtime
     [([''oc'', ''whoami''], Completed 0 (''alice'' @ [CHR 0x0A]) []),
      ([''oc'', ''project''], Completed 0 (''demo'' @ [CHR 0x0A]) []),
      ([''oc'', ''get'', ''users'', ''-o'', ''json''], Completed 0 out []),
      ([''oc'', ''get'', ''groups'', ''-o'', ''json''], Completed 0 out []),
      ([''oc'', ''delete'', ''user'', ''carol''], Completed 1 [] ''not found'')] decoded"

text \<open>The user object \<open>{"metadata": {"name": name}}\<close>.\<close>

definition user_named :: "string \<Rightarrow> json" where
  "user_named name = JDict [(''metadata'', JDict [(''name'', JStr name)])]"

text \<open>A runtime with a working login whose list queries decode to the items \<open>us\<close>.\<close>

definition relisted :: "json list \<Rightarrow> runtime" where
  "relisted us = listing ''<users>'' [(''<users>'', JDict [(''items'', JList us)])]"

text \<open>
  The shape the script expects of a decoded list: a list of objects, each with an object
  under \<open>metadata\<close> when it has that key at all; for a group, a value under \<open>users\<close>
  that has a length when it has that key at all.
\<close>

definition user_object :: "json \<Rightarrow> bool" where
  "user_object u =
     (case u of
        JDict kvs \<Rightarrow>
          (case map_of kvs ''metadata'' of
             None \<Rightarrow> True
           | Some m \<Rightarrow> (case m of JDict _ \<Rightarrow> True | _ \<Rightarrow> False))
      | _ \<Rightarrow> False)"

definition sized :: "json \<Rightarrow> bool" where
  "sized v = (case v of JList _ \<Rightarrow> True | JStr _ \<Rightarrow> True | JDict _ \<Rightarrow> True | _ \<Rightarrow> False)"

definition group_object :: "json \<Rightarrow> bool" where
  "group_object g =
     (user_object g \<and>
      (case g of
         JDict kvs \<Rightarrow> (case map_of kvs ''users'' of None \<Rightarrow> True | Some v \<Rightarrow> sized v)
       | _ \<Rightarrow> False))"

definition list_of :: "(json \<Rightarrow> bool) \<Rightarrow> json \<Rightarrow> bool" where
  "list_of P v = (case v of JList xs \<Rightarrow> list_all P xs | _ \<Rightarrow> False)"

text \<open>The namespace of an invocation with one subcommand.\<close>

definition args_of :: "string \<Rightarrow> string \<Rightarrow> string \<Rightarrow> string list option \<Rightarrow> namespace" where
  "args_of cmd user grp gs =
     \<lparr>arg_command = Some cmd, arg_username = user, arg_group = grp, arg_groups = gs\<rparr>"

section \<open>Properties\<close>

subsection \<open>Traces\<close>

lemma runs_of_append [simp]: "runs_of (t @ u) = runs_of t @ runs_of u"
  by (induction t rule: runs_of.induct) simp_all

lemma runs_of_log [simp]: "runs_of (log lvl msg t) = runs_of t"
  by (simp add: log_def)

lemma log_emitted [simp]: "lvl \<noteq> DEBUG \<Longrightarrow> log lvl msg t = t @ [Log lvl msg]"
  by (cases lvl) (simp_all add: log_def)

lemma run_runs [simp]: "runs_of (after rt command t) = runs_of t @ [''oc'' # command]"
  by (simp add: run_oc_command_def Let_def split: run_result.splits)

lemma run_ok_trace: "ok rt command t \<Longrightarrow> after rt command t = t @ [Run (''oc'' # command)]"
  by (simp add: run_oc_command_def Let_def log_def split: run_result.splits if_splits)

subsection \<open>The command runner\<close>

text \<open>
  C5, as the code has it. For every argument list, \<open>run_oc_command\<close> returns
  \<open>(True, stdout)\<close> exactly when the external process exits with code zero and its
  captured output decodes as text; on a non-zero exit code with decodable output it
  returns \<open>(False, stderr)\<close>; when the call cannot be launched, or the captured output
  cannot be decoded, it returns \<open>(False, str(e))\<close> and raises nothing. In every case
  exactly one external call is made.
\<close>

theorem run_oc_command_outcome:
  "(ok rt command t \<longleftrightarrow>
      (\<exists>out err. subprocess_run rt (runs_of t) (''oc'' # command) = Completed 0 out err))
   \<and> (\<forall>out err. subprocess_run rt (runs_of t) (''oc'' # command) = Completed 0 out err
          \<longrightarrow> fst (run_oc_command rt command t) = (True, out))
   \<and> (\<forall>code out err. subprocess_run rt (runs_of t) (''oc'' # command) = Completed code out err
          \<and> code \<noteq> 0 \<longrightarrow> fst (run_oc_command rt command t) = (False, err))
   \<and> (\<forall>msg. subprocess_run rt (runs_of t) (''oc'' # command) = Raised msg
          \<longrightarrow> fst (run_oc_command rt command t) = (False, msg))
   \<and> (\<forall>code msg. subprocess_run rt (runs_of t) (''oc'' # command) = Undecodable code msg
          \<longrightarrow> fst (run_oc_command rt command t) = (False, msg))
   \<and> runs_of (after rt command t) = runs_of t @ [''oc'' # command]"
  by (simp add: run_oc_command_def Let_def split: run_result.splits)

text \<open>
  The claim without the proviso on decoding fails: a process that exits with code zero
  after printing bytes that are not text makes \<open>run_oc_command\<close> return false with the
  message of the decoding error.
\<close>

theorem run_oc_command_outcome_counterexample:
  "subprocess_run garbled [] [''oc'', ''whoami'']
     = Undecodable 0 (quoted ''utf-8''
         @ '' codec can't decode byte 0xff in position 0: invalid start byte'')
   \<and> run_oc_command garbled [''whoami''] []
     = ((False, quoted ''utf-8''
           @ '' codec can't decode byte 0xff in position 0: invalid start byte''),
        [Run [''oc'', ''whoami''],
         Log ERROR (''Exception while running command: '' @ quoted ''utf-8''
           @ '' codec can't decode byte 0xff in position 0: invalid start byte'')])"
  by (simp add: run_oc_command_def garbled_def Let_def log_def)

theorem run_oc_command_outcome_witness:
  "fst (run_oc_command no_project [''whoami''] []) = (True, ''alice'')
   \<and> fst (run_oc_command no_project [''project''] []) = (False, ''no project'')
   \<and> fst (run_oc_command no_project [''get'', ''users'', ''-o'', ''json''] [])
       = (False, ''No such file'')"
  using run_oc_command_outcome [of no_project "[''whoami'']" "[]"]
        run_oc_command_outcome [of no_project "[''project'']" "[]"]
        run_oc_command_outcome [of no_project "[''get'', ''users'', ''-o'', ''json'']" "[]"]
  by (simp add: no_project_def table_runtime_def)

subsection \<open>The connection check\<close>

lemma check_connection_unfold:
  "check_connection rt t =
     (if \<not> ok rt [''whoami''] t
      then (False, after rt [''whoami''] t
                   @ [Log ERROR ''Not logged in to OpenShift cluster. Run 'oc login' first.''])
      else if \<not> ok rt [''project''] (after rt [''whoami''] t)
      then (False, after rt [''project''] (after rt [''whoami''] t)
                   @ [Log ERROR ''Failed to get current project''])
      else (True, after rt [''project''] (after rt [''whoami''] t)
                  @ [Log INFO (''Connected to OpenShift. Current project: ''
                       @ strip (snd (fst (run_oc_command rt [''project'']
                                            (after rt [''whoami''] t)))))]))"
  by (simp add: check_connection_def is_logged_in_def Let_def split_beta)

text \<open>
  C7. \<open>check_connection\<close> runs the identity query first; if it fails, it reports that
  the user is not logged in and returns false, and the identity query is the only call
  made. Otherwise it runs the context query; if that fails it returns false; if it
  succeeds it logs the stripped context name and returns true.
\<close>

theorem check_connection_steps:
  "(\<not> ok rt [''whoami''] t \<longrightarrow>
      check_connection rt t =
        (False, after rt [''whoami''] t
                @ [Log ERROR ''Not logged in to OpenShift cluster. Run 'oc login' first.''])
      \<and> runs_of (snd (check_connection rt t)) = runs_of t @ [[''oc'', ''whoami'']])
   \<and> (ok rt [''whoami''] t \<and> \<not> ok rt [''project''] (after rt [''whoami''] t) \<longrightarrow>
      check_connection rt t =
        (False, after rt [''project''] (after rt [''whoami''] t)
                @ [Log ERROR ''Failed to get current project''])
      \<and> runs_of (snd (check_connection rt t))
          = runs_of t @ [[''oc'', ''whoami''], [''oc'', ''project'']])
   \<and> (ok rt [''whoami''] t \<and> ok rt [''project''] (after rt [''whoami''] t) \<longrightarrow>
      check_connection rt t =
        (True, t @ [Run [''oc'', ''whoami''], Run [''oc'', ''project''],
                    Log INFO (''Connected to OpenShift. Current project: ''
                      @ strip (snd (fst (run_oc_command rt [''project'']
                                           (after rt [''whoami''] t)))))]))"
  by (simp add: check_connection_unfold run_ok_trace)

theorem check_connection_steps_witness:
  "check_connection no_project []
     = (False,
        [Run [''oc'', ''whoami''], Run [''oc'', ''project''],
         Log ERROR ''Command failed: oc project'',
         Log ERROR ''Error: no project'',
         Log ERROR ''Failed to get current project''])
   \<and> check_connection (listing [] []) []
     = (True,
        [Run [''oc'', ''whoami''], Run [''oc'', ''project''],
         Log INFO ''Connected to OpenShift. Current project: demo''])"
  using check_connection_steps [of no_project "[]"] check_connection_steps [of "listing [] []" "[]"]
  by (simp add: run_oc_command_def no_project_def listing_def table_runtime_def Let_def log_def
        strip_def isspace_def)

subsection \<open>Creating a user\<close>

lemma create_user_add_runs [simp]:
  "runs_of (create_user_add rt username grp t)
     = runs_of t @ [[''oc'', ''adm'', ''groups'', ''add-users'', grp, username]]"
  by (simp add: create_user_add_def Let_def split_beta)

lemma create_user_group_unfold:
  "create_user_group rt username grp t =
     (let t1 = after rt [''get'', ''group'', grp] t;
          t2 = t1 @ [Log INFO (''Group '' @ quoted grp @ '' doesn't exist, creating it'')];
          t3 = after rt [''adm'', ''groups'', ''new'', grp] t2
      in if \<not> ok rt [''get'', ''group'', grp] t then
           if \<not> ok rt [''adm'', ''groups'', ''new'', grp] t2
           then t3 @ [Log WARNING (''Failed to create group '' @ quoted grp)]
           else create_user_add rt username grp t3
         else create_user_add rt username grp t1)"
  by (simp add: create_user_group_def Let_def split_beta)

lemma create_user_group_queries:
  "[c \<leftarrow> runs_of (create_user_group rt username grp t). take 3 c = [''oc'', ''get'', ''group'']]
     = [c \<leftarrow> runs_of t. take 3 c = [''oc'', ''get'', ''group'']] @ [[''oc'', ''get'', ''group'', grp]]"
  by (simp add: create_user_group_unfold Let_def)

lemma create_user_loop_queries:
  "[c \<leftarrow> runs_of (create_user_loop rt username gs t). take 3 c = [''oc'', ''get'', ''group'']]
     = [c \<leftarrow> runs_of t. take 3 c = [''oc'', ''get'', ''group'']]
       @ map (\<lambda>g. [''oc'', ''get'', ''group'', g]) gs"
  by (induction gs arbitrary: t) (simp_all add: create_user_group_queries)

lemma create_user_unfold:
  "create_user rt username groups t =
     (if \<not> ok rt [''create'', ''user'', username] t
      then (False, after rt [''create'', ''user'', username] t
                   @ [Log ERROR (''Failed to create user '' @ quoted username @ '': ''
                        @ snd (fst (run_oc_command rt [''create'', ''user'', username] t)))])
      else (True, create_user_loop rt username (case groups of None \<Rightarrow> [] | Some gs \<Rightarrow> gs)
                    (after rt [''create'', ''user'', username] t
                     @ [Log INFO (''User '' @ quoted username @ '' created successfully'')])))"
  by (simp add: create_user_def Let_def split_beta split: option.splits)

text \<open>
  C2. Once the user-create call of \<open>create_user\<close> has succeeded, the function returns
  true for every group list. For a group whose existence query fails and whose creation
  call fails too, the loop body logs the warning, makes no membership call for that group
  (its only external calls are the query and the creation), and the loop goes on with
  the remaining groups: whatever fails, every group of the list is queried, in order.
\<close>

theorem create_user_group_failure_isolated:
  assumes "ok rt [''create'', ''user'', username] t"
  shows "fst (create_user rt username groups t) = True
    \<and> snd (create_user rt username (Some gs) t)
        = create_user_loop rt username gs
            (after rt [''create'', ''user'', username] t
             @ [Log INFO (''User '' @ quoted username @ '' created successfully'')])
    \<and> (\<not> ok rt [''get'', ''group'', grp] u
        \<and> \<not> ok rt [''adm'', ''groups'', ''new'', grp]
              (after rt [''get'', ''group'', grp] u
               @ [Log INFO (''Group '' @ quoted grp @ '' doesn't exist, creating it'')])
        \<longrightarrow> create_user_group rt username grp u
              = after rt [''adm'', ''groups'', ''new'', grp]
                  (after rt [''get'', ''group'', grp] u
                   @ [Log INFO (''Group '' @ quoted grp @ '' doesn't exist, creating it'')])
                @ [Log WARNING (''Failed to create group '' @ quoted grp)]
          \<and> runs_of (create_user_group rt username grp u)
              = runs_of u @ [[''oc'', ''get'', ''group'', grp],
                             [''oc'', ''adm'', ''groups'', ''new'', grp]]
          \<and> create_user_loop rt username (grp # rest) u
              = create_user_loop rt username rest (create_user_group rt username grp u))
    \<and> [c \<leftarrow> runs_of (create_user_loop rt username gs u). take 3 c = [''oc'', ''get'', ''group'']]
        = [c \<leftarrow> runs_of u. take 3 c = [''oc'', ''get'', ''group'']]
          @ map (\<lambda>g. [''oc'', ''get'', ''group'', g]) gs"
  using assms
  by (simp add: create_user_unfold create_user_loop_queries create_user_group_unfold Let_def)

theorem create_user_group_failure_isolated_witness:
  "ok no_ops_group [''create'', ''user'', ''bob''] []
   \<and> fst (create_user no_ops_group ''bob'' (Some [''ops'', ''dev'']) []) = True
   \<and> runs_of (snd (create_user no_ops_group ''bob'' (Some [''ops'', ''dev'']) []))
       = [[''oc'', ''create'', ''user'', ''bob''],
          [''oc'', ''get'', ''group'', ''ops''],
          [''oc'', ''adm'', ''groups'', ''new'', ''ops''],
          [''oc'', ''get'', ''group'', ''dev''],
          [''oc'', ''adm'', ''groups'', ''add-users'', ''dev'', ''bob'']]"
proof -
  have created: "ok no_ops_group [''create'', ''user'', ''bob''] []"
    by (simp add: run_oc_command_def no_ops_group_def table_runtime_def Let_def)
  have runs: "runs_of (snd (create_user no_ops_group ''bob'' (Some [''ops'', ''dev'']) []))
       = [[''oc'', ''create'', ''user'', ''bob''],
          [''oc'', ''get'', ''group'', ''ops''],
          [''oc'', ''adm'', ''groups'', ''new'', ''ops''],
          [''oc'', ''get'', ''group'', ''dev''],
          [''oc'', ''adm'', ''groups'', ''add-users'', ''dev'', ''bob'']]"
    by (simp add: create_user_def create_user_group_def create_user_add_def run_oc_command_def
          no_ops_group_def table_runtime_def Let_def log_def quoted_def)
  from create_user_group_failure_isolated [OF created, of "Some [''ops'', ''dev'']"] created runs
  show ?thesis by simp
qed

subsection \<open>Adding a user to a group\<close>

lemma add_user_to_group_unfold:
  "add_user_to_group rt username grp t =
     (let add_user = (\<lambda>t.
            if \<not> ok rt [''adm'', ''groups'', ''add-users'', grp, username] t
            then (False, after rt [''adm'', ''groups'', ''add-users'', grp, username] t
                    @ [Log ERROR (''Failed to add user '' @ quoted username @ '' to group ''
                                @ quoted grp @ '': ''
                        @ snd (fst (run_oc_command rt
                                      [''adm'', ''groups'', ''add-users'', grp, username] t)))])
            else (True, after rt [''adm'', ''groups'', ''add-users'', grp, username] t
                    @ [Log INFO (''Added user '' @ quoted username @ '' to group '' @ quoted grp)]));
          t1 = after rt [''get'', ''group'', grp] t;
          t2 = t1 @ [Log INFO (''Group '' @ quoted grp @ '' doesn't exist, creating it'')];
          t3 = after rt [''adm'', ''groups'', ''new'', grp] t2
      in if \<not> ok rt [''get'', ''group'', grp] t then
           if \<not> ok rt [''adm'', ''groups'', ''new'', grp] t2
           then (False, t3 @ [Log ERROR (''Failed to create group '' @ quoted grp)])
           else add_user t3
         else add_user t1)"
  by (simp add: add_user_to_group_def Let_def split_beta)

text \<open>
  C3. \<open>add_user_to_group\<close> fails at either step: when the existence query of the group
  and the creation call both fail, it returns false and the membership call is never
  made (the query and the creation are its only external calls); when the group exists,
  or was created, and the membership call fails, it returns false as well.
\<close>

theorem add_user_to_group_fatal:
  "(\<not> ok rt [''get'', ''group'', grp] t
    \<and> \<not> ok rt [''adm'', ''groups'', ''new'', grp]
          (after rt [''get'', ''group'', grp] t
           @ [Log INFO (''Group '' @ quoted grp @ '' doesn't exist, creating it'')])
    \<longrightarrow> fst (add_user_to_group rt username grp t) = False
        \<and> runs_of (snd (add_user_to_group rt username grp t))
            = runs_of t @ [[''oc'', ''get'', ''group'', grp],
                           [''oc'', ''adm'', ''groups'', ''new'', grp]])
   \<and> (ok rt [''get'', ''group'', grp] t
      \<and> \<not> ok rt [''adm'', ''groups'', ''add-users'', grp, username]
            (after rt [''get'', ''group'', grp] t)
    \<longrightarrow> fst (add_user_to_group rt username grp t) = False)
   \<and> (\<not> ok rt [''get'', ''group'', grp] t
      \<and> ok rt [''adm'', ''groups'', ''new'', grp]
            (after rt [''get'', ''group'', grp] t
             @ [Log INFO (''Group '' @ quoted grp @ '' doesn't exist, creating it'')])
      \<and> \<not> ok rt [''adm'', ''groups'', ''add-users'', grp, username]
            (after rt [''adm'', ''groups'', ''new'', grp]
               (after rt [''get'', ''group'', grp] t
                @ [Log INFO (''Group '' @ quoted grp @ '' doesn't exist, creating it'')]))
    \<longrightarrow> fst (add_user_to_group rt username grp t) = False)"
  by (simp add: add_user_to_group_unfold Let_def)

theorem add_user_to_group_fatal_witness:
  "add_user_to_group no_ops_group ''dave'' ''ops'' []
     = (False,
        [Run [''oc'', ''get'', ''group'', ''ops''],
         Log ERROR ''Command failed: oc get group ops'',
         Log ERROR ''Error: not found'',
         Log INFO ''Group 'ops' doesn't exist, creating it'',
         Run [''oc'', ''adm'', ''groups'', ''new'', ''ops''],
         Log ERROR ''Command failed: oc adm groups new ops'',
         Log ERROR ''Error: forbidden'',
         Log ERROR (''Failed to create group '' @ quoted ''ops'')])"
  using add_user_to_group_fatal [of no_ops_group "''ops''" "[]" "''dave''"]
  by (simp add: add_user_to_group_def run_oc_command_def
        no_ops_group_def table_runtime_def Let_def log_def quoted_def strip_def isspace_def)

subsection \<open>The list queries\<close>

lemma run_oc_command_json_loads [simp]:
  "run_oc_command (rt\<lparr>json_loads := f\<rparr>) command t = run_oc_command rt command t"
  by (simp add: run_oc_command_def)

text \<open>
  C4, as the code has it. When a list query succeeds and \<open>json.loads\<close> raises
  \<open>JSONDecodeError\<close> on its output, \<open>get_users\<close> and \<open>get_groups\<close> log a parse error
  and return the empty list: no error value reaches the caller, and the returned list is
  the one a response with an empty \<open>items\<close> array gives.
\<close>

theorem list_parse_failure_is_empty:
  "(run_oc_command rt [''get'', ''users'', ''-o'', ''json''] t = ((True, output), t1)
      \<and> json_loads rt output = JSONDecodeError
    \<longrightarrow> get_users rt t
          = (Inr (JList []), t1 @ [Log ERROR ''Failed to parse user data as JSON'']))
   \<and> (run_oc_command rt [''get'', ''groups'', ''-o'', ''json''] t = ((True, output), t1)
      \<and> json_loads rt output = JSONDecodeError
    \<longrightarrow> get_groups rt t
          = (Inr (JList []), t1 @ [Log ERROR ''Failed to parse group data as JSON'']))
   \<and> (run_oc_command rt [''get'', ''users'', ''-o'', ''json''] t = ((True, output), t1)
      \<and> json_loads rt output = Decoded (JDict [(''items'', JList [])])
    \<longrightarrow> fst (get_users rt t) = Inr (JList []))
   \<and> (run_oc_command rt [''get'', ''groups'', ''-o'', ''json''] t = ((True, output), t1)
      \<and> json_loads rt output = Decoded (JDict [(''items'', JList [])])
    \<longrightarrow> fst (get_groups rt t) = Inr (JList []))"
  by (simp add: get_users_def get_groups_def dict_get_def)

theorem list_parse_failure_is_empty_witness:
  "get_users (listing ''<html>'' []) []
     = (Inr (JList []),
        [Run [''oc'', ''get'', ''users'', ''-o'', ''json''],
         Log ERROR ''Failed to parse user data as JSON''])
   \<and> get_groups (listing ''<html>'' []) []
     = (Inr (JList []),
        [Run [''oc'', ''get'', ''groups'', ''-o'', ''json''],
         Log ERROR ''Failed to parse group data as JSON''])
   \<and> fst (get_users (listing ''{}'' [(''{}'', JDict [(''items'', JList [])])]) [])
     = Inr (JList [])"
  using list_parse_failure_is_empty
          [of "listing ''<html>'' []" "[]" "''<html>''" "[Run [''oc'', ''get'', ''users'', ''-o'', ''json'']]"]
        list_parse_failure_is_empty
          [of "listing ''<html>'' []" "[]" "''<html>''" "[Run [''oc'', ''get'', ''groups'', ''-o'', ''json'']]"]
        list_parse_failure_is_empty
          [of "listing ''{}'' [(''{}'', JDict [(''items'', JList [])])]" "[]" "''{}''"
              "[Run [''oc'', ''get'', ''users'', ''-o'', ''json'']]"]
  by (simp add: run_oc_command_def listing_def table_runtime_def Let_def log_def)

text \<open>
  Not every output that is not well-formed JSON ends in \<open>JSONDecodeError\<close>: on 2000
  opening brackets \<open>json.loads\<close> raises \<open>RecursionError\<close>, which \<open>get_users\<close> and
  \<open>get_groups\<close> do not catch, so that the error reaches the caller and no parse error
  is logged.
\<close>

theorem list_parse_failure_is_empty_counterexample:
  "brackets = replicate 2000 (CHR ''['')
   \<and> run_oc_command deep_output [''get'', ''users'', ''-o'', ''json''] []
       = ((True, brackets), [Run [''oc'', ''get'', ''users'', ''-o'', ''json'']])
   \<and> get_users deep_output []
       = (Inl RecursionError, [Run [''oc'', ''get'', ''users'', ''-o'', ''json'']])
   \<and> get_groups deep_output []
       = (Inl RecursionError, [Run [''oc'', ''get'', ''groups'', ''-o'', ''json'']])"
  by (simp add: get_users_def get_groups_def run_oc_command_def deep_output_def Let_def log_def)
     (simp add: brackets_def)

text \<open>
  C10. When a list query succeeds and its output decodes to an object without the key
  \<open>items\<close>, \<open>get_users\<close> and \<open>get_groups\<close> return the empty list and log nothing
  (the trace grows by the external call only): the result, value and trace, is the one
  the same run gives when the output decodes to an object with an empty \<open>items\<close> array.
\<close>

theorem list_without_items_is_empty:
  "(run_oc_command rt [''get'', ''users'', ''-o'', ''json''] t = ((True, output), t1)
      \<and> json_loads rt output = Decoded (JDict kvs) \<and> map_of kvs ''items'' = None
    \<longrightarrow> get_users rt t = (Inr (JList []), t @ [Run [''oc'', ''get'', ''users'', ''-o'', ''json'']])
        \<and> get_users rt t
            = get_users (rt\<lparr>json_loads := (json_loads rt)(output := Decoded (JDict [(''items'', JList [])]))\<rparr>) t)
   \<and> (run_oc_command rt [''get'', ''groups'', ''-o'', ''json''] t = ((True, output), t1)
      \<and> json_loads rt output = Decoded (JDict kvs) \<and> map_of kvs ''items'' = None
    \<longrightarrow> get_groups rt t = (Inr (JList []), t @ [Run [''oc'', ''get'', ''groups'', ''-o'', ''json'']])
        \<and> get_groups rt t
            = get_groups (rt\<lparr>json_loads := (json_loads rt)(output := Decoded (JDict [(''items'', JList [])]))\<rparr>) t)"
proof -
  have trace: "t1 = t @ [Run (''oc'' # c)]" if "run_oc_command rt c t = ((True, output), t1)" for c
    using run_ok_trace [of rt c t] that by simp
  show ?thesis
    by (auto simp add: get_users_def get_groups_def dict_get_def dest: trace)
qed

theorem list_without_items_is_empty_witness:
  "get_users (listing ''{}'' [(''{}'', JDict [])]) []
     = (Inr (JList []), [Run [''oc'', ''get'', ''users'', ''-o'', ''json'']])
   \<and> get_groups (listing ''{}'' [(''{}'', JDict [(''kind'', JStr ''List'')])]) []
     = (Inr (JList []), [Run [''oc'', ''get'', ''groups'', ''-o'', ''json'']])"
  using list_without_items_is_empty
          [of "listing ''{}'' [(''{}'', JDict [])]" "[]" "''{}''"
              "[Run [''oc'', ''get'', ''users'', ''-o'', ''json'']]" "[]"]
        list_without_items_is_empty
          [of "listing ''{}'' [(''{}'', JDict [(''kind'', JStr ''List'')])]" "[]" "''{}''"
              "[Run [''oc'', ''get'', ''groups'', ''-o'', ''json'']]" "[(''kind'', JStr ''List'')]"]
  by (simp add: run_oc_command_def listing_def table_runtime_def Let_def log_def)

subsection \<open>The dispatcher\<close>

text \<open>
  C9. A \<open>--groups\<close> flag with no group name gives \<open>args.groups = []\<close>, which the
  dispatcher turns into \<open>None\<close> before it calls \<open>create_user\<close>: the whole run is the
  run without \<open>--groups\<close>. Called with \<open>None\<close> (or with the empty list),
  \<open>create_user\<close> makes exactly one external call, the user-create call, and none about
  groups.
\<close>

theorem empty_groups_as_none:
  "main_groups (args\<lparr>arg_groups := Some []\<rparr>) = None
   \<and> main_groups (args\<lparr>arg_groups := None\<rparr>) = None
   \<and> main rt (args\<lparr>arg_groups := Some []\<rparr>) t = main rt (args\<lparr>arg_groups := None\<rparr>) t
   \<and> create_user rt username (Some []) t = create_user rt username None t
   \<and> runs_of (snd (create_user rt username None t))
       = runs_of t @ [[''oc'', ''create'', ''user'', username]]"
proof -
  have groups: "main_groups (args\<lparr>arg_groups := Some []\<rparr>) = None"
    "main_groups (args\<lparr>arg_groups := None\<rparr>) = None"
    by (simp_all add: main_groups_def)
  have "main_create_user rt (args\<lparr>arg_groups := Some []\<rparr>) u
          = main_create_user rt (args\<lparr>arg_groups := None\<rparr>) u" for u
    by (simp add: main_create_user_def groups)
  moreover have "main_delete_user rt (args\<lparr>arg_groups := Some []\<rparr>) u
          = main_delete_user rt (args\<lparr>arg_groups := None\<rparr>) u" for u
    by (simp add: main_delete_user_def)
  moreover have "main_add_to_group rt (args\<lparr>arg_groups := Some []\<rparr>) u
          = main_add_to_group rt (args\<lparr>arg_groups := None\<rparr>) u" for u
    by (simp add: main_add_to_group_def)
  ultimately have "main rt (args\<lparr>arg_groups := Some []\<rparr>) t
          = main rt (args\<lparr>arg_groups := None\<rparr>) t"
    by (simp add: main_def split_beta)
  moreover have "create_user rt username (Some []) t = create_user rt username None t"
    by (simp add: create_user_unfold)
  moreover have "runs_of (snd (create_user rt username None t))
       = runs_of t @ [[''oc'', ''create'', ''user'', username]]"
    by (simp add: create_user_unfold)
  ultimately show ?thesis
    using groups by simp
qed

theorem empty_groups_as_none_witness:
  "runs_of (snd (main (listing [] []) (args_of ''create-user'' ''bob'' [] (Some [])) []))
     = [[''oc'', ''whoami''], [''oc'', ''project''], [''oc'', ''create'', ''user'', ''bob''],
        [''oc'', ''get'', ''users'', ''-o'', ''json'']]
   \<and> main (listing [] []) (args_of ''create-user'' ''bob'' [] (Some [])) []
     = main (listing [] []) (args_of ''create-user'' ''bob'' [] None) []"
proof -
  have "runs_of (snd (main (listing [] []) (args_of ''create-user'' ''bob'' [] None) []))
     = [[''oc'', ''whoami''], [''oc'', ''project''], [''oc'', ''create'', ''user'', ''bob''],
        [''oc'', ''get'', ''users'', ''-o'', ''json'']]"
    by (simp add: main_def main_create_user_def main_groups_def check_connection_def
          is_logged_in_def create_user_def get_users_def args_of_def
          run_oc_command_def listing_def table_runtime_def Let_def log_def
          py_iter_def split_beta)
  with empty_groups_as_none [of "args_of ''create-user'' ''bob'' [] None" "listing [] []" "[]"]
  show ?thesis by (simp add: args_of_def)
qed

lemma check_connection_runs:
  "runs_of (snd (check_connection rt t)) = runs_of t @ [[''oc'', ''whoami'']]
   \<or> runs_of (snd (check_connection rt t))
       = runs_of t @ [[''oc'', ''whoami''], [''oc'', ''project'']]"
  by (simp add: check_connection_unfold)

lemma main_unfold:
  "main rt args t =
     (if \<not> fst (check_connection rt t) then (SysExit 1, snd (check_connection rt t))
      else if arg_command args = Some ''list-users''
        then main_list_users rt (snd (check_connection rt t))
      else if arg_command args = Some ''create-user''
        then main_create_user rt args (snd (check_connection rt t))
      else if arg_command args = Some ''delete-user''
        then main_delete_user rt args (snd (check_connection rt t))
      else if arg_command args = Some ''add-to-group''
        then main_add_to_group rt args (snd (check_connection rt t))
      else if arg_command args = Some ''list-groups''
        then main_list_groups rt (snd (check_connection rt t))
      else (Returned, snd (check_connection rt t) @ [Log ERROR ''No command specified'', PrintHelp]))"
  by (simp add: main_def split_beta)

lemma main_no_command:
  assumes "arg_command args = None"
  shows "main rt args t =
           (if fst (check_connection rt t)
            then (Returned, snd (check_connection rt t)
                            @ [Log ERROR ''No command specified'', PrintHelp])
            else (SysExit 1, snd (check_connection rt t)))"
  using assms by (simp add: main_unfold)

lemma main_argv_empty: "main_argv rt others [] t = main rt no_args t"
  by (simp add: main_argv_def parse_args_def)

text \<open>
  C1, as the code has it. \<open>main\<close> parses the command line first and runs the
  connection check before it looks at the subcommand. An invocation without a
  subcommand therefore makes the external calls of the connection check, one or two,
  and no other: when the check succeeds, it logs that no command was specified, prints
  the usage help and returns; when the check fails, it exits with status 1 and prints
  no help. An invocation with an unrecognized subcommand ends in the argument parser,
  with exit status 2, and makes no external call at all.
\<close>

theorem main_without_command:
  "main_argv rt others [] t =
     (if fst (check_connection rt t)
      then (Returned, snd (check_connection rt t)
                      @ [Log ERROR ''No command specified'', PrintHelp])
      else (SysExit 1, snd (check_connection rt t)))
   \<and> runs_of (snd (main_argv rt others [] t)) = runs_of (snd (check_connection rt t))
   \<and> (runs_of (snd (main_argv rt others [] t)) = runs_of t @ [[''oc'', ''whoami'']]
      \<or> runs_of (snd (main_argv rt others [] t))
          = runs_of t @ [[''oc'', ''whoami''], [''oc'', ''project'']])
   \<and> (name \<notin> set recognized \<and> (name = [] \<or> hd name \<noteq> CHR ''-'')
      \<longrightarrow> main_argv rt others (name # rest) t = (SysExit 2, t)
          \<and> runs_of (snd (main_argv rt others (name # rest) t)) = runs_of t)"
proof -
  have m: "main_argv rt others [] t =
     (if fst (check_connection rt t)
      then (Returned, snd (check_connection rt t)
                      @ [Log ERROR ''No command specified'', PrintHelp])
      else (SysExit 1, snd (check_connection rt t)))"
    by (simp add: main_argv_empty main_no_command no_args_def)
  then have r: "runs_of (snd (main_argv rt others [] t)) = runs_of (snd (check_connection rt t))"
    by simp
  have u: "main_argv rt others (name # rest) t = (SysExit 2, t)"
    if "name \<notin> set recognized" "name = [] \<or> hd name \<noteq> CHR ''-''"
    using that by (simp add: main_argv_def parse_args_def)
  from m r u check_connection_runs [of rt t] show ?thesis by auto
qed

text \<open>
  The claim that an invocation without a subcommand makes no external call at all
  fails: with a working login and no subcommand, two calls are made before the help is
  printed.
\<close>

theorem main_without_command_counterexample:
  "arg_command no_args = None
   \<and> main (listing [] []) no_args []
       = (Returned,
          [Run [''oc'', ''whoami''], Run [''oc'', ''project''],
           Log INFO ''Connected to OpenShift. Current project: demo'',
           Log ERROR ''No command specified'', PrintHelp])
   \<and> length (runs_of (snd (main (listing [] []) no_args []))) = 2
   \<and> main_argv (listing [] []) (\<lambda>argv. Inr no_args) [] []
       = (Returned,
          [Run [''oc'', ''whoami''], Run [''oc'', ''project''],
           Log INFO ''Connected to OpenShift. Current project: demo'',
           Log ERROR ''No command specified'', PrintHelp])"
  by (simp add: main_argv_def parse_args_def main_def check_connection_def is_logged_in_def
        no_args_def run_oc_command_def listing_def table_runtime_def Let_def log_def
        strip_def isspace_def)

theorem main_without_command_witness:
  "''bogus'' \<notin> set recognized
   \<and> main_argv no_project (\<lambda>argv. Inr no_args) [''bogus''] [] = (SysExit 2, [])
   \<and> main_argv no_project (\<lambda>argv. Inr no_args) [] []
       = (SysExit 1,
          [Run [''oc'', ''whoami''], Run [''oc'', ''project''],
           Log ERROR ''Command failed: oc project'',
           Log ERROR ''Error: no project'',
           Log ERROR ''Failed to get current project''])
   \<and> runs_of (snd (main_argv no_project (\<lambda>argv. Inr no_args) [] []))
       = [[''oc'', ''whoami''], [''oc'', ''project'']]"
proof -
  have h: "''bogus'' \<notin> set recognized"
    by (simp add: recognized_def)
  have c: "check_connection no_project []
     = (False,
        [Run [''oc'', ''whoami''], Run [''oc'', ''project''],
         Log ERROR ''Command failed: oc project'',
         Log ERROR ''Error: no project'',
         Log ERROR ''Failed to get current project''])"
    by (simp add: check_connection_def is_logged_in_def
          run_oc_command_def no_project_def table_runtime_def Let_def log_def strip_def isspace_def)
  from main_without_command [of no_project "\<lambda>argv. Inr no_args" "[]" "''bogus''" "[]"] h c
  show ?thesis by simp
qed

subsection \<open>Decoded lists of the expected shape\<close>

lemma metadata_name_object:
  "user_object u \<Longrightarrow> \<exists>v. metadata_name u d = Inr v"
  by (auto simp add: user_object_def metadata_name_def dict_get_def
        split: json.splits option.splits)

lemma list_users_loop_returns:
  "list_all user_object us \<Longrightarrow> fst (list_users_loop rt us t) = Returned"
proof (induction us arbitrary: t)
  case Nil
  show ?case by simp
next
  case (Cons u us)
  then obtain v where "metadata_name u (JStr ''Unknown'') = Inr v"
    using metadata_name_object [of u] by auto
  with Cons show ?case by simp
qed

lemma group_object_users:
  "group_object g \<Longrightarrow> \<exists>v n. dict_get g ''users'' (JList []) = Inr v \<and> py_len v = Inr n"
  by (auto simp add: group_object_def sized_def dict_get_def py_len_def
        split: json.splits option.splits)

lemma list_groups_loop_returns:
  "list_all group_object gs \<Longrightarrow> fst (list_groups_loop rt gs t) = Returned"
proof (induction gs arbitrary: t)
  case Nil
  show ?case by simp
next
  case (Cons g gs)
  then have "user_object g" and "group_object g"
    by (simp_all add: group_object_def)
  then obtain name v n where "metadata_name g (JStr ''Unknown'') = Inr name"
    "dict_get g ''users'' (JList []) = Inr v" "py_len v = Inr n"
    using metadata_name_object [of g] group_object_users [of g] by blast
  with Cons show ?case by simp
qed

lemma any_named_objects:
  "list_all user_object us \<Longrightarrow>
     any_named username us = Inr (\<exists>u \<in> set us. metadata_name u JNull = Inr (JStr username))"
proof (induction us)
  case Nil
  show ?case by simp
next
  case (Cons u us)
  then obtain v where "metadata_name u JNull = Inr v"
    using metadata_name_object [of u] by auto
  with Cons show ?case by auto
qed

lemma main_list_users_returns:
  assumes "fst (get_users rt (t @ [Log INFO ''Getting list of users...''])) = Inr v"
    and "list_of user_object v"
  shows "fst (main_list_users rt t) = Returned"
proof -
  from assms(2) obtain us where v: "v = JList us" and us: "list_all user_object us"
    by (auto simp add: list_of_def split: json.splits)
  from assms(1) v list_users_loop_returns [OF us] show ?thesis
    by (simp add: main_list_users_def Let_def split_beta py_len_def truthy_def py_iter_def)
qed

lemma main_list_groups_returns:
  assumes "fst (get_groups rt (t @ [Log INFO ''Getting list of groups...''])) = Inr v"
    and "list_of group_object v"
  shows "fst (main_list_groups rt t) = Returned"
proof -
  from assms(2) obtain gs where v: "v = JList gs" and gs: "list_all group_object gs"
    by (auto simp add: list_of_def split: json.splits)
  from assms(1) v list_groups_loop_returns [OF gs] show ?thesis
    by (simp add: main_list_groups_def Let_def split_beta py_len_def truthy_def py_iter_def)
qed

lemma main_delete_user_returns: "fst (main_delete_user rt args t) = Returned"
  by (simp add: main_delete_user_def Let_def split_beta)

lemma main_add_to_group_returns: "fst (main_add_to_group rt args t) = Returned"
  by (simp add: main_add_to_group_def Let_def split_beta)

lemma main_create_user_unfold:
  "main_create_user rt args t =
     (let username = arg_username args;
          c = create_user rt username (main_groups args)
                (t @ [Log INFO (''Creating user '' @ quoted username @ ''...'')]);
          g = get_users rt (snd c @ [Log INFO (''Successfully created user '' @ quoted username)])
      in if fst c then
           case fst g of
             Inl e \<Rightarrow> (Uncaught e, snd g)
           | Inr users_after \<Rightarrow>
               (case py_iter users_after of
                  Inl e \<Rightarrow> (Uncaught e, snd g)
                | Inr us \<Rightarrow>
                    (case any_named username us of
                       Inl e \<Rightarrow> (Uncaught e, snd g)
                     | Inr user_created \<Rightarrow>
                         (Returned,
                          snd g @ [if user_created
                                   then Log INFO (''Verified user '' @ quoted username
                                                  @ '' exists in the system'')
                                   else Log WARNING (''User '' @ quoted username
                                                     @ '' was not found after creation'')])))
         else (Returned, snd c @ [Log ERROR (''Failed to create user '' @ quoted username)]))"
  by (simp add: main_create_user_def Let_def split_beta split: sum.splits)

lemma main_create_user_returns:
  assumes "c = create_user rt (arg_username args) (main_groups args)
                 (t @ [Log INFO (''Creating user '' @ quoted (arg_username args) @ ''...'')])"
    and "fst c \<Longrightarrow>
           fst (get_users rt (snd c @ [Log INFO (''Successfully created user ''
                                                   @ quoted (arg_username args))])) = Inr v
           \<and> list_of user_object v"
  shows "fst (main_create_user rt args t) = Returned"
proof (cases "fst c")
  case False
  with assms(1) show ?thesis by (simp add: main_create_user_unfold Let_def)
next
  case True
  with assms(2) obtain us where v: "v = JList us" and us: "list_all user_object us"
    and g: "fst (get_users rt (snd c @ [Log INFO (''Successfully created user ''
                                                   @ quoted (arg_username args))])) = Inr v"
    by (auto simp add: list_of_def split: json.splits)
  from True assms(1) g v any_named_objects [OF us] show ?thesis
    by (simp add: main_create_user_unfold Let_def py_iter_def)
qed

subsection \<open>The exit status\<close>

lemma list_users_loop_no_exit: "fst (list_users_loop rt us t) \<noteq> SysExit n"
  by (induction us arbitrary: t) (simp_all split: sum.splits)

lemma list_groups_loop_no_exit: "fst (list_groups_loop rt gs t) \<noteq> SysExit n"
  by (induction gs arbitrary: t) (simp_all split: sum.splits)

lemma main_list_users_no_exit: "fst (main_list_users rt t) \<noteq> SysExit n"
  by (simp add: main_list_users_def Let_def split_beta list_users_loop_no_exit
        split: sum.splits)

lemma main_list_groups_no_exit: "fst (main_list_groups rt t) \<noteq> SysExit n"
  by (simp add: main_list_groups_def Let_def split_beta list_groups_loop_no_exit
        split: sum.splits)

lemma main_create_user_no_exit: "fst (main_create_user rt args t) \<noteq> SysExit n"
  by (simp add: main_create_user_unfold Let_def split: sum.splits)

lemma main_connected_no_exit:
  "fst (check_connection rt t) \<Longrightarrow> fst (main rt args t) \<noteq> SysExit n"
  by (simp add: main_unfold main_list_users_no_exit main_list_groups_no_exit
        main_create_user_no_exit main_delete_user_returns main_add_to_group_returns)


text \<open>
  C6, as the code has it. The exit status is 1 when the connection check fails. When the
  check succeeds and no exception escapes \<open>main\<close>, the exit status is 0, so that in
  the absence of an escaping exception the status is 1 exactly when the check fails. No
  exception escapes, and the status is 0 whatever the result of the operation: for
  \<open>delete-user\<close> and \<open>add-to-group\<close>; for \<open>create-user\<close> when the create call fails; for
  \<open>list-users\<close>, \<open>list-groups\<close> and the re-list of \<open>create-user\<close> when the list
  operation returns a list of objects of the expected shape (as it does for a failed
  query and for output that \<open>json.loads\<close> rejects with \<open>JSONDecodeError\<close>, where it
  returns the empty list).
\<close>

theorem main_exit_status:
  "(\<not> fst (check_connection rt t) \<longrightarrow> exit_status (fst (main rt args t)) = 1)
   \<and> ((\<forall>e. fst (main rt args t) \<noteq> Uncaught e) \<longrightarrow>
        (exit_status (fst (main rt args t)) = 1 \<longleftrightarrow> \<not> fst (check_connection rt t))
        \<and> (fst (check_connection rt t) \<longrightarrow> exit_status (fst (main rt args t)) = 0))
   \<and> (fst (check_connection rt t)
        \<and> (arg_command args = Some ''delete-user'' \<or> arg_command args = Some ''add-to-group'')
      \<longrightarrow> exit_status (fst (main rt args t)) = 0)
   \<and> (fst (check_connection rt t) \<and> arg_command args = Some ''list-users''
        \<and> fst (get_users rt (snd (check_connection rt t)
                               @ [Log INFO ''Getting list of users...''])) = Inr v
        \<and> list_of user_object v
      \<longrightarrow> exit_status (fst (main rt args t)) = 0)
   \<and> (fst (check_connection rt t) \<and> arg_command args = Some ''list-groups''
        \<and> fst (get_groups rt (snd (check_connection rt t)
                                @ [Log INFO ''Getting list of groups...''])) = Inr v
        \<and> list_of group_object v
      \<longrightarrow> exit_status (fst (main rt args t)) = 0)
   \<and> (fst (check_connection rt t) \<and> arg_command args = Some ''create-user''
        \<and> c = create_user rt (arg_username args) (main_groups args)
                 (snd (check_connection rt t)
                  @ [Log INFO (''Creating user '' @ quoted (arg_username args) @ ''...'')])
        \<and> (fst c \<longrightarrow>
              fst (get_users rt (snd c @ [Log INFO (''Successfully created user ''
                                                     @ quoted (arg_username args))])) = Inr v
              \<and> list_of user_object v)
      \<longrightarrow> exit_status (fst (main rt args t)) = 0)"
  (is "?down \<and> ?iff \<and> ?del \<and> ?lu \<and> ?lg \<and> ?cu")
proof -
  have down: "exit_status (fst (main rt args t)) = 1" if "\<not> fst (check_connection rt t)"
    using that by (simp add: main_unfold)
  have up: "exit_status (fst (main rt args t)) = 0"
    if "fst (check_connection rt t)" "\<forall>e. fst (main rt args t) \<noteq> Uncaught e"
  proof (cases "fst (main rt args t)")
    case Returned
    then show ?thesis by simp
  next
    case (SysExit n)
    with main_connected_no_exit [OF that(1), of args n] show ?thesis by simp
  next
    case (Uncaught e)
    with that(2) show ?thesis by simp
  qed
  have "?down" using down by simp
  moreover have "?iff"
  proof (intro impI conjI)
    assume h: "\<forall>e. fst (main rt args t) \<noteq> Uncaught e"
    show "exit_status (fst (main rt args t)) = 1 \<longleftrightarrow> \<not> fst (check_connection rt t)"
      using down up [OF _ h] by (cases "fst (check_connection rt t)") simp_all
    show "exit_status (fst (main rt args t)) = 0" if "fst (check_connection rt t)"
      using up [OF that h] .
  qed
  moreover have "?del"
    by (auto simp add: main_unfold main_delete_user_returns main_add_to_group_returns)
  moreover have "?lu"
  proof (intro impI, elim conjE)
    assume "fst (check_connection rt t)" "arg_command args = Some ''list-users''"
      and g: "fst (get_users rt (snd (check_connection rt t)
                               @ [Log INFO ''Getting list of users...''])) = Inr v"
      and s: "list_of user_object v"
    then show "exit_status (fst (main rt args t)) = 0"
      using main_list_users_returns [OF g s] by (simp add: main_unfold)
  qed
  moreover have "?lg"
  proof (intro impI, elim conjE)
    assume "fst (check_connection rt t)" "arg_command args = Some ''list-groups''"
      and g: "fst (get_groups rt (snd (check_connection rt t)
                                @ [Log INFO ''Getting list of groups...''])) = Inr v"
      and s: "list_of group_object v"
    then show "exit_status (fst (main rt args t)) = 0"
      using main_list_groups_returns [OF g s] by (simp add: main_unfold)
  qed
  moreover have "?cu"
  proof (intro impI, elim conjE)
    assume conn: "fst (check_connection rt t)" "arg_command args = Some ''create-user''"
      and c: "c = create_user rt (arg_username args) (main_groups args)
                 (snd (check_connection rt t)
                  @ [Log INFO (''Creating user '' @ quoted (arg_username args) @ ''...'')])"
      and g: "fst c \<longrightarrow>
              fst (get_users rt (snd c @ [Log INFO (''Successfully created user ''
                                                     @ quoted (arg_username args))])) = Inr v
              \<and> list_of user_object v"
    have "fst (main_create_user rt args (snd (check_connection rt t))) = Returned"
      by (rule main_create_user_returns [OF c, where v = v]) (use g in simp)
    with conn show "exit_status (fst (main rt args t)) = 0"
      by (simp add: main_unfold)
  qed
  ultimately show ?thesis by (intro conjI)
qed

text \<open>
  The claim that a successful connection check always gives exit status 0 fails: when the
  user query prints the JSON text \<open>[]\<close>, \<open>data.get\<close> raises \<open>AttributeError\<close> in
  \<open>get_users\<close>, nothing catches it, and the interpreter exits with status 1.
\<close>

theorem main_exit_status_counterexample:
  "fst (check_connection (listing ''[]'' [(''[]'', JList [])]) []) = True
   \<and> arg_command (args_of ''list-users'' [] [] None) = Some ''list-users''
   \<and> main (listing ''[]'' [(''[]'', JList [])]) (args_of ''list-users'' [] [] None) []
       = (Uncaught AttributeError,
          [Run [''oc'', ''whoami''], Run [''oc'', ''project''],
           Log INFO ''Connected to OpenShift. Current project: demo'',
           Log INFO ''Getting list of users...'',
           Run [''oc'', ''get'', ''users'', ''-o'', ''json'']])
   \<and> exit_status (fst (main (listing ''[]'' [(''[]'', JList [])])
                          (args_of ''list-users'' [] [] None) [])) = 1"
  by (simp add: main_def main_list_users_def get_users_def check_connection_def is_logged_in_def
        args_of_def dict_get_def
        run_oc_command_def listing_def table_runtime_def Let_def log_def strip_def isspace_def)

theorem main_exit_status_witness:
  "exit_status (fst (main (relisted [user_named ''alice''])
                          (args_of ''list-users'' [] [] None) [])) = 0
   \<and> fst (check_connection (listing [] []) []) = True
   \<and> fst (delete_user (listing [] []) ''carol''
            [Run [''oc'', ''whoami''], Run [''oc'', ''project''],
             Log INFO ''Connected to OpenShift. Current project: demo'',
             Log INFO (''Deleting user '' @ quoted ''carol'' @ ''...'')]) = False
   \<and> exit_status (fst (main (listing [] []) (args_of ''delete-user'' ''carol'' [] None) [])) = 0
   \<and> exit_status (fst (main no_project (args_of ''delete-user'' ''carol'' [] None) [])) = 1"
proof -
  have c: "fst (check_connection (listing [] []) []) = True"
    by (simp add: check_connection_def is_logged_in_def
          run_oc_command_def listing_def table_runtime_def Let_def log_def)
  have n: "fst (check_connection no_project []) = False"
    by (simp add: check_connection_def is_logged_in_def
          run_oc_command_def no_project_def table_runtime_def Let_def log_def)
  have d: "fst (delete_user (listing [] []) ''carol''
            [Run [''oc'', ''whoami''], Run [''oc'', ''project''],
             Log INFO ''Connected to OpenShift. Current project: demo'',
             Log INFO (''Deleting user '' @ quoted ''carol'' @ ''...'')]) = False"
    by (simp add: delete_user_def
          run_oc_command_def listing_def table_runtime_def Let_def log_def)
  have r: "check_connection (relisted [user_named ''alice'']) []
             = (True, [Run [''oc'', ''whoami''], Run [''oc'', ''project''],
                       Log INFO ''Connected to OpenShift. Current project: demo''])"
    by (simp add: check_connection_def is_logged_in_def run_oc_command_def relisted_def
          listing_def table_runtime_def Let_def log_def strip_def isspace_def)
  have g: "fst (get_users (relisted [user_named ''alice''])
                  (snd (check_connection (relisted [user_named ''alice'']) [])
                   @ [Log INFO ''Getting list of users...'']))
             = Inr (JList [user_named ''alice''])"
    unfolding r
    by (simp add: get_users_def dict_get_def run_oc_command_def relisted_def
          listing_def table_runtime_def Let_def log_def)
  have s: "list_of user_object (JList [user_named ''alice''])"
    by (simp add: list_of_def user_object_def user_named_def)
  from main_exit_status [of "listing [] []" "[]" "args_of ''delete-user'' ''carol'' [] None"]
       main_exit_status [of no_project "[]" "args_of ''delete-user'' ''carol'' [] None"]
       main_exit_status [of "relisted [user_named ''alice'']" "[]"
                            "args_of ''list-users'' [] [] None" "JList [user_named ''alice'']"]
       c n d r g s
  show ?thesis by (simp add: args_of_def)
qed

subsection \<open>The verification after \<open>create-user\<close>\<close>

lemma get_users_runs [simp]:
  "runs_of (snd (get_users rt t)) = runs_of t @ [[''oc'', ''get'', ''users'', ''-o'', ''json'']]"
  by (simp add: get_users_def Let_def split_beta split: loads_result.splits)

text \<open>
  C8, as the code has it. After a successful \<open>create_user\<close>, the dispatcher lists the
  users again (one more external call, the user query). When the re-listed users are a
  list of objects of the expected shape, it then logs the line "Verified user ... exists
  in the system" if one of them has the created username as its metadata name, and
  the warning "User ... was not found after creation" otherwise, and returns.
\<close>

theorem main_create_user_verification:
  assumes "fst (check_connection rt t)" and "arg_command args = Some ''create-user''"
    and "create_user rt (arg_username args) (main_groups args)
             (snd (check_connection rt t)
              @ [Log INFO (''Creating user '' @ quoted (arg_username args) @ ''...'')])
           = (True, t2)"
    and "get_users rt (t2 @ [Log INFO (''Successfully created user ''
                                      @ quoted (arg_username args))])
           = (Inr (JList us), t4)"
    and "list_all user_object us"
  shows "main rt args t =
           (Returned,
            t4 @ [if \<exists>u \<in> set us. metadata_name u JNull = Inr (JStr (arg_username args))
                  then Log INFO (''Verified user '' @ quoted (arg_username args)
                                 @ '' exists in the system'')
                  else Log WARNING (''User '' @ quoted (arg_username args)
                                    @ '' was not found after creation'')])
    \<and> runs_of t4 = runs_of t2 @ [[''oc'', ''get'', ''users'', ''-o'', ''json'']]"
proof -
  have "runs_of (snd (get_users rt (t2 @ [Log INFO (''Successfully created user ''
                                      @ quoted (arg_username args))])))
          = runs_of t2 @ [[''oc'', ''get'', ''users'', ''-o'', ''json'']]"
    by simp
  with assms(4) have runs: "runs_of t4 = runs_of t2 @ [[''oc'', ''get'', ''users'', ''-o'', ''json'']]"
    by simp
  from assms(3,4) any_named_objects [OF assms(5), of "arg_username args"]
  have "main_create_user rt args (snd (check_connection rt t)) =
           (Returned,
            t4 @ [if \<exists>u \<in> set us. metadata_name u JNull = Inr (JStr (arg_username args))
                  then Log INFO (''Verified user '' @ quoted (arg_username args)
                                 @ '' exists in the system'')
                  else Log WARNING (''User '' @ quoted (arg_username args)
                                    @ '' was not found after creation'')])"
    by (simp add: main_create_user_unfold Let_def py_iter_def)
  with assms(1,2) runs show ?thesis by (simp add: main_unfold)
qed

text \<open>The definitions a sample run of \<open>create-user\<close> unfolds.\<close>

lemmas run_sample = main_def main_create_user_def main_groups_def check_connection_def
  is_logged_in_def create_user_def create_user_group_def create_user_add_def get_users_def
  args_of_def dict_get_def py_iter_def metadata_name_def user_named_def user_object_def
  run_oc_command_def relisted_def listing_def table_runtime_def Let_def log_def
  strip_def isspace_def quoted_def split_beta

text \<open>
  Without the proviso on the shape, the claim fails: when the re-listed items are the
  number 5 followed by the user \<open>bob\<close>, the list holds a user whose metadata name is the
  created username, yet \<open>user.get\<close> raises \<open>AttributeError\<close> on the first item and
  neither the "Verified" line nor the warning is logged.
\<close>

theorem main_create_user_verification_counterexample:
  "metadata_name (user_named ''bob'') JNull = Inr (JStr ''bob'')
   \<and> main (relisted [JInt 5, user_named ''bob'']) (args_of ''create-user'' ''bob'' [] None) []
       = (Uncaught AttributeError,
          [Run [''oc'', ''whoami''], Run [''oc'', ''project''],
           Log INFO ''Connected to OpenShift. Current project: demo'',
           Log INFO (''Creating user '' @ quoted ''bob'' @ ''...''),
           Run [''oc'', ''create'', ''user'', ''bob''],
           Log INFO (''User '' @ quoted ''bob'' @ '' created successfully''),
           Log INFO (''Successfully created user '' @ quoted ''bob''),
           Run [''oc'', ''get'', ''users'', ''-o'', ''json'']])"
  by (simp add: run_sample)

theorem main_create_user_verification_witness:
  "main (relisted [user_named ''alice'', user_named ''bob''])
        (args_of ''create-user'' ''bob'' [] (Some [''dev''])) []
     = (Returned,
        [Run [''oc'', ''whoami''], Run [''oc'', ''project''],
         Log INFO ''Connected to OpenShift. Current project: demo'',
         Log INFO (''Creating user '' @ quoted ''bob'' @ ''...''),
         Run [''oc'', ''create'', ''user'', ''bob''],
         Log INFO (''User '' @ quoted ''bob'' @ '' created successfully''),
         Run [''oc'', ''get'', ''group'', ''dev''],
         Run [''oc'', ''adm'', ''groups'', ''add-users'', ''dev'', ''bob''],
         Log INFO (''Added user '' @ quoted ''bob'' @ '' to group '' @ quoted ''dev''),
         Log INFO (''Successfully created user '' @ quoted ''bob''),
         Run [''oc'', ''get'', ''users'', ''-o'', ''json''],
         Log INFO (''Verified user '' @ quoted ''bob'' @ '' exists in the system'')])
   \<and> main (relisted [user_named ''alice''])
        (args_of ''create-user'' ''bob'' [] None) []
     = (Returned,
        [Run [''oc'', ''whoami''], Run [''oc'', ''project''],
         Log INFO ''Connected to OpenShift. Current project: demo'',
         Log INFO (''Creating user '' @ quoted ''bob'' @ ''...''),
         Run [''oc'', ''create'', ''user'', ''bob''],
         Log INFO (''User '' @ quoted ''bob'' @ '' created successfully''),
         Log INFO (''Successfully created user '' @ quoted ''bob''),
         Run [''oc'', ''get'', ''users'', ''-o'', ''json''],
         Log WARNING (''User '' @ quoted ''bob'' @ '' was not found after creation'')])"
proof -
  let ?rt = "relisted [user_named ''alice'', user_named ''bob'']"
  let ?args = "args_of ''create-user'' ''bob'' [] (Some [''dev''])"
  let ?t1 = "[Run [''oc'', ''whoami''], Run [''oc'', ''project''],
         Log INFO ''Connected to OpenShift. Current project: demo'']"
  let ?t2 = "?t1 @ [Log INFO (''Creating user '' @ quoted ''bob'' @ ''...''),
         Run [''oc'', ''create'', ''user'', ''bob''],
         Log INFO (''User '' @ quoted ''bob'' @ '' created successfully''),
         Run [''oc'', ''get'', ''group'', ''dev''],
         Run [''oc'', ''adm'', ''groups'', ''add-users'', ''dev'', ''bob''],
         Log INFO (''Added user '' @ quoted ''bob'' @ '' to group '' @ quoted ''dev'')]"
  let ?t4 = "?t2 @ [Log INFO (''Successfully created user '' @ quoted ''bob''),
         Run [''oc'', ''get'', ''users'', ''-o'', ''json'']]"
  have conn: "check_connection ?rt [] = (True, ?t1)"
    by (simp add: run_sample)
  have a: "fst (check_connection ?rt [])" by (simp add: conn)
  have b: "arg_command ?args = Some ''create-user''" by (simp add: args_of_def)
  have c: "create_user ?rt (arg_username ?args) (main_groups ?args)
             (snd (check_connection ?rt [])
              @ [Log INFO (''Creating user '' @ quoted (arg_username ?args) @ ''...'')])
           = (True, ?t2)"
    unfolding conn by (simp add: run_sample)
  have d: "get_users ?rt (?t2 @ [Log INFO (''Successfully created user ''
                                      @ quoted (arg_username ?args))])
           = (Inr (JList [user_named ''alice'', user_named ''bob'']), ?t4)"
    by (simp add: run_sample)
  have e: "list_all user_object [user_named ''alice'', user_named ''bob'']"
    by (simp add: user_object_def user_named_def)
  have second: "main (relisted [user_named ''alice''])
        (args_of ''create-user'' ''bob'' [] None) []
     = (Returned,
        [Run [''oc'', ''whoami''], Run [''oc'', ''project''],
         Log INFO ''Connected to OpenShift. Current project: demo'',
         Log INFO (''Creating user '' @ quoted ''bob'' @ ''...''),
         Run [''oc'', ''create'', ''user'', ''bob''],
         Log INFO (''User '' @ quoted ''bob'' @ '' created successfully''),
         Log INFO (''Successfully created user '' @ quoted ''bob''),
         Run [''oc'', ''get'', ''users'', ''-o'', ''json''],
         Log WARNING (''User '' @ quoted ''bob'' @ '' was not found after creation'')])"
    by (simp add: run_sample)
  from main_create_user_verification [OF a b c d e] second
  show ?thesis
    by (simp add: args_of_def metadata_name_def dict_get_def user_named_def)
qed

end
